theory Spec2Isabelle
  imports Complex_Main "HOL-Library.Word"
begin

section \<open>JavaScript strings\<close>

text \<open>
  A JavaScript string is a sequence of UTF-16 code units. The keys and style classes of
  the source are ASCII; its labels are Chinese and are written as their code units.
\<close>

type_synonym js_string = "16 word list"

definition js_str :: "string \<Rightarrow> js_string" where
  "js_str s = map of_char s"

section \<open>Membership configuration (frontend/src/utils/membership.ts)\<close>

record MembershipConfig =
  label :: js_string
  style :: js_string

text \<open>
  What a property read on \<open>MEMBERSHIP_CONFIG\<close> can yield at run time: one of its own
  entries, a member inherited from \<open>Object.prototype\<close> (named by its key), or
  \<open>undefined\<close>.
\<close>

datatype js_value =
    Config MembershipConfig
  | ObjectPrototypeMember js_string
  | Undefined

text \<open>
  The object literal \<open>MEMBERSHIP_CONFIG\<close>: its own properties, in source order.
\<close>

definition MEMBERSHIP_CONFIG :: "(js_string \<times> MembershipConfig) list" where
  "MEMBERSHIP_CONFIG =
    [(js_str ''professional'',
        \<lparr>label = [0x4E13, 0x4E1A, 0x7248],
         style = js_str ''bg-purple-500/20 text-purple-300 border border-purple-500/30''\<rparr>),
     (js_str ''basic'',
        \<lparr>label = [0x57FA, 0x7840, 0x7248],
         style = js_str ''bg-blue-500/20 text-blue-300 border border-blue-500/30''\<rparr>),
     (js_str ''free'',
        \<lparr>label = [0x514D, 0x8D39, 0x7248],
         style = js_str ''bg-gray-500/20 text-gray-300 border border-gray-500/30''\<rparr>)]"

text \<open>
  An object literal has \<open>Object.prototype\<close> as its prototype. These are the property
  keys of \<open>Object.prototype\<close> (ECMA-262, Properties of the Object Prototype Object).
\<close>

definition Object_prototype_keys :: "js_string list" where
  "Object_prototype_keys =
    [js_str ''constructor'', js_str ''hasOwnProperty'', js_str ''isPrototypeOf'',
     js_str ''propertyIsEnumerable'', js_str ''toLocaleString'', js_str ''toString'',
     js_str ''valueOf'', js_str ''__proto__'', js_str ''__defineGetter__'',
     js_str ''__defineSetter__'', js_str ''__lookupGetter__'', js_str ''__lookupSetter__'']"

text \<open>
  \<open>key in obj\<close>: true when the key is an own property or is found on the prototype
  chain.
\<close>

definition has_property :: "(js_string \<times> MembershipConfig) list \<Rightarrow> js_string \<Rightarrow> bool" where
  "has_property obj k = (List.member (map fst obj) k \<or> List.member Object_prototype_keys k)"

text \<open>
  \<open>obj[key]\<close>: the own property when there is one, else the member of the prototype,
  else \<open>undefined\<close>.
\<close>

definition get_property :: "(js_string \<times> MembershipConfig) list \<Rightarrow> js_string \<Rightarrow> js_value" where
  "get_property obj k =
    (case map_of obj k of
       Some c \<Rightarrow> Config c
     | None \<Rightarrow> if List.member Object_prototype_keys k then ObjectPrototypeMember k
               else Undefined)"

definition MEMBERSHIP_TIERS :: "js_string list" where
  "MEMBERSHIP_TIERS = [js_str ''free'', js_str ''basic'', js_str ''professional'']"

definition getMembershipConfig :: "js_string \<Rightarrow> js_value" where
  "getMembershipConfig tier =
    (if has_property MEMBERSHIP_CONFIG tier then get_property MEMBERSHIP_CONFIG tier
     else get_property MEMBERSHIP_CONFIG (js_str ''free''))"

text \<open>
  \<open>Array.prototype.includes\<close> scans the array from the left and compares with
  SameValueZero, which on strings is equality of the code unit sequences.
\<close>

primrec array_includes :: "'a list \<Rightarrow> 'a \<Rightarrow> bool" where
  "array_includes [] x = False"
| "array_includes (y # ys) x = (if y = x then True else array_includes ys x)"

definition isValidMembershipTier :: "js_string \<Rightarrow> bool" where
  "isValidMembershipTier tier = array_includes MEMBERSHIP_TIERS tier"

section \<open>Error boundary (frontend/src/components/common/ErrorBoundary.tsx)\<close>

text \<open>
  A JavaScript number is an IEEE double: not-a-number, an infinity, negative zero, or a
  finite value, which is a rational (\<open>Finite 0\<close> is positive zero).
\<close>

datatype js_number = NaN | PosInfinity | NegInfinity | NegZero | Finite rat

record js_error =
  message :: js_string

text \<open>The callbacks the component hands to the elements it creates.\<close>

datatype handler = HandleRetry

text \<open>
  \<open>ReactNode\<close>: the primitives, and the objects (an element, portal or promise, kept
  opaque; an iterable of nodes). \<open>ErrorFallbackElement\<close> is the element
  \<open><ErrorFallback error={...} onRetry={...} />\<close> with its two props.
\<close>

datatype ReactNode =
    RUndefined
  | RNull
  | RBoolean bool
  | RNumber js_number
  | RBigInt int
  | RString js_string
  | RElement nat
  | RIterable "ReactNode list"
  | ErrorFallbackElement "js_error option" handler

text \<open>
  ToBoolean, as the condition of an \<open>if\<close> applies it: \<open>undefined\<close>, \<open>null\<close>,
  \<open>false\<close>, \<open>NaN\<close>, both zeros, \<open>0n\<close> and the empty string are falsy; every
  object is truthy.
\<close>

fun truthy :: "ReactNode \<Rightarrow> bool" where
  "truthy RUndefined = False"
| "truthy RNull = False"
| "truthy (RBoolean b) = b"
| "truthy (RNumber n) = (n \<noteq> NaN \<and> n \<noteq> NegZero \<and> n \<noteq> Finite 0)"
| "truthy (RBigInt i) = (i \<noteq> 0)"
| "truthy (RString s) = (s \<noteq> [])"
| "truthy (RElement e) = True"
| "truthy (RIterable ns) = True"
| "truthy (ErrorFallbackElement e h) = True"

text \<open>
  The props that \<open>render\<close> reads. \<open>fallback\<close> is optional: reading it when the prop
  was not passed gives \<open>undefined\<close>. (\<open>onError\<close> is read by \<open>componentDidCatch\<close>
  only, which changes no state.)
\<close>

record ErrorBoundaryProps =
  children :: ReactNode
  fallback :: ReactNode

record ErrorBoundaryState =
  hasError :: bool
  error :: "js_error option"

text \<open>The state the constructor sets.\<close>

definition initial_state :: ErrorBoundaryState where
  "initial_state = \<lparr>hasError = False, error = None\<rparr>"

definition getDerivedStateFromError :: "js_error \<Rightarrow> ErrorBoundaryState" where
  "getDerivedStateFromError e = \<lparr>hasError = True, error = Some e\<rparr>"

text \<open>\<open>setState\<close> merges the given fields into the state.\<close>

definition handleRetry :: "ErrorBoundaryState \<Rightarrow> ErrorBoundaryState" where
  "handleRetry st = st\<lparr>hasError := False, error := None\<rparr>"

definition render :: "ErrorBoundaryProps \<Rightarrow> ErrorBoundaryState \<Rightarrow> ReactNode" where
  "render props st =
    (if hasError st then
       (if truthy (fallback props) then fallback props
        else ErrorFallbackElement (error st) HandleRetry)
     else children props)"

section \<open>History store\<close>

datatype run_status = Completed | Failed

record HistoryRecord =
  request_id :: string
  owner_id :: string
  status :: run_status
  asset_refs :: "string list"
  record_error :: "string option"
  timestamps :: "nat list"

datatype append_result = Ok | Conflict

text \<open>
  Modelled from the spec: the history store's \<open>append\<close>, whose code is not among the
  source files. The spec gives it as \<open>append(HistoryRecord) -> Ok | Conflict\<close>, an
  "insert if absent for this request id": a record whose request id is already stored is
  refused with \<open>Conflict\<close> and the store is left as it was; any other record is added.
\<close>

definition history_append ::
  "HistoryRecord \<Rightarrow> HistoryRecord list \<Rightarrow> append_result \<times> HistoryRecord list" where
  "history_append r store =
    (if List.member (map request_id store) (request_id r) then (Conflict, store)
     else (Ok, store @ [r]))"

text \<open>The store after a sequence of \<open>append\<close> calls, starting from the empty store.\<close>

definition submit_all :: "HistoryRecord list \<Rightarrow> HistoryRecord list" where
  "submit_all rs = foldl (\<lambda>store r. snd (history_append r store)) [] rs"

text \<open>The stored records of one request id.\<close>

definition records_of :: "string \<Rightarrow> HistoryRecord list \<Rightarrow> HistoryRecord list" where
  "records_of rid store = filter (\<lambda>x. request_id x = rid) store"

section \<open>Properties of the membership configuration\<close>

lemmas membership_defs =
  getMembershipConfig_def has_property_def get_property_def MEMBERSHIP_CONFIG_def
  Object_prototype_keys_def js_str_def

lemma array_includes_set: "array_includes xs x \<longleftrightarrow> x \<in> set xs"
  by (induction xs) auto

lemma own_keys: "map fst MEMBERSHIP_CONFIG = [js_str ''professional'', js_str ''basic'', js_str ''free'']"
  by (simp add: MEMBERSHIP_CONFIG_def)

lemma isValidMembershipTier_own: "isValidMembershipTier t \<longleftrightarrow> List.member (map fst MEMBERSHIP_CONFIG) t"
  by (auto simp add: isValidMembershipTier_def MEMBERSHIP_TIERS_def own_keys)

lemma getMembershipConfig_valid:
  "getMembershipConfig (js_str ''free'') = Config
     \<lparr>label = [0x514D, 0x8D39, 0x7248],
      style = js_str ''bg-gray-500/20 text-gray-300 border border-gray-500/30''\<rparr>"
  "getMembershipConfig (js_str ''basic'') = Config
     \<lparr>label = [0x57FA, 0x7840, 0x7248],
      style = js_str ''bg-blue-500/20 text-blue-300 border border-blue-500/30''\<rparr>"
  "getMembershipConfig (js_str ''professional'') = Config
     \<lparr>label = [0x4E13, 0x4E1A, 0x7248],
      style = js_str ''bg-purple-500/20 text-purple-300 border border-purple-500/30''\<rparr>"
  by (simp_all add: membership_defs)

lemma getMembershipConfig_default:
  assumes "\<not> isValidMembershipTier t" and "\<not> List.member Object_prototype_keys t"
  shows "getMembershipConfig t = get_property MEMBERSHIP_CONFIG (js_str ''free'')"
  using assms by (simp add: isValidMembershipTier_own getMembershipConfig_def has_property_def)

lemma getMembershipConfig_inherited:
  assumes "List.member Object_prototype_keys t"
  shows "getMembershipConfig t = ObjectPrototypeMember t"
proof -
  have "\<not> List.member (map fst MEMBERSHIP_CONFIG) t"
    using assms by (auto simp add: own_keys Object_prototype_keys_def js_str_def)
  then have "map_of MEMBERSHIP_CONFIG t = None"
    by (simp add: map_of_eq_None_iff)
  with assms show ?thesis
    by (simp add: getMembershipConfig_def has_property_def get_property_def)
qed

text \<open>
  C8. The claim: for every string that is not exactly 'free', 'basic' or 'professional',
  \<open>getMembershipConfig\<close> returns \<open>MEMBERSHIP_CONFIG.free\<close>. The code tests the key
  with \<open>in\<close>, which also finds the keys inherited from \<open>Object.prototype\<close>: at the
  string 'toString', which is not a valid tier, it returns the inherited member
  \<open>Object.prototype.toString\<close> and not the free configuration.
\<close>

theorem getMembershipConfig_toString:
  "\<not> isValidMembershipTier (js_str ''toString'')
   \<and> getMembershipConfig (js_str ''toString'') = ObjectPrototypeMember (js_str ''toString'')
   \<and> getMembershipConfig (js_str ''toString'') \<noteq> get_property MEMBERSHIP_CONFIG (js_str ''free'')"
  by (simp add: isValidMembershipTier_def MEMBERSHIP_TIERS_def membership_defs)

text \<open>
  C9. \<open>isValidMembershipTier t\<close> is true if and only if \<open>t\<close> is exactly one of 'free',
  'basic' or 'professional' (compared code unit by code unit, so case-sensitively); and
  whenever it is true, \<open>getMembershipConfig t\<close> is the entry \<open>MEMBERSHIP_CONFIG[t]\<close>,
  an own property of the configuration object.
\<close>

theorem isValidMembershipTier_decides:
  "(isValidMembershipTier t \<longleftrightarrow>
      t = js_str ''free'' \<or> t = js_str ''basic'' \<or> t = js_str ''professional'')
   \<and> (isValidMembershipTier t \<longrightarrow>
      (\<exists>c. map_of MEMBERSHIP_CONFIG t = Some c
           \<and> get_property MEMBERSHIP_CONFIG t = Config c
           \<and> getMembershipConfig t = Config c))"
proof -
  have iff: "isValidMembershipTier t \<longleftrightarrow>
      t = js_str ''free'' \<or> t = js_str ''basic'' \<or> t = js_str ''professional''"
    by (auto simp add: isValidMembershipTier_def MEMBERSHIP_TIERS_def)
  have "\<exists>c. map_of MEMBERSHIP_CONFIG t = Some c
           \<and> get_property MEMBERSHIP_CONFIG t = Config c
           \<and> getMembershipConfig t = Config c" if "isValidMembershipTier t"
  proof -
    from that have "List.member (map fst MEMBERSHIP_CONFIG) t"
      by (simp add: isValidMembershipTier_own)
    then obtain c where c: "map_of MEMBERSHIP_CONFIG t = Some c"
      by (cases "map_of MEMBERSHIP_CONFIG t") (auto simp add: map_of_eq_None_iff)
    with \<open>List.member (map fst MEMBERSHIP_CONFIG) t\<close> show ?thesis
      by (simp add: getMembershipConfig_def has_property_def get_property_def)
  qed
  with iff show ?thesis by blast
qed

theorem isValidMembershipTier_decides_witness:
  "isValidMembershipTier (js_str ''basic'')
   \<and> getMembershipConfig (js_str ''basic'') = Config
       \<lparr>label = [0x57FA, 0x7840, 0x7248],
        style = js_str ''bg-blue-500/20 text-blue-300 border border-blue-500/30''\<rparr>
   \<and> \<not> isValidMembershipTier (js_str ''FREE'')"
proof -
  have basic: "isValidMembershipTier (js_str ''basic'')"
    using isValidMembershipTier_decides [of "js_str ''basic''"] by simp
  have "map_of MEMBERSHIP_CONFIG (js_str ''basic'') = Some
       \<lparr>label = [0x57FA, 0x7840, 0x7248],
        style = js_str ''bg-blue-500/20 text-blue-300 border border-blue-500/30''\<rparr>"
    by (simp add: MEMBERSHIP_CONFIG_def js_str_def)
  with basic isValidMembershipTier_decides [of "js_str ''basic''"]
  have "getMembershipConfig (js_str ''basic'') = Config
       \<lparr>label = [0x57FA, 0x7840, 0x7248],
        style = js_str ''bg-blue-500/20 text-blue-300 border border-blue-500/30''\<rparr>"
    by auto
  moreover have "\<not> isValidMembershipTier (js_str ''FREE'')"
    using isValidMembershipTier_decides [of "js_str ''FREE''"] by (simp add: js_str_def)
  ultimately show ?thesis using basic by simp
qed

section \<open>Properties of the error boundary\<close>

lemma truthy_fallback_shown:
  "hasError st \<Longrightarrow> truthy (fallback props) \<Longrightarrow> render props st = fallback props"
  by (simp add: render_def)

lemma falsy_fallback_default:
  "hasError st \<Longrightarrow> \<not> truthy (fallback props) \<Longrightarrow>
     render props st = ErrorFallbackElement (error st) HandleRetry"
  by (simp add: render_def)

text \<open>
  C10, as amended. In a state with \<open>hasError\<close> true, \<open>render\<close> returns
  \<open>props.fallback\<close> when that node is truthy and otherwise an \<open>ErrorFallback\<close> element
  carrying the caught error and the retry handler; either way the result does not depend
  on the children. In a state with \<open>hasError\<close> false it returns the children.
  \<open>getDerivedStateFromError\<close> gives the state with \<open>hasError\<close> true and the error
  recorded; \<open>handleRetry\<close> gives a state with \<open>hasError\<close> false and no error, in which
  the children are rendered again, as they are in the constructor's state.
\<close>

theorem render_error_boundary:
  "(hasError st \<longrightarrow>
      render props st =
        (if truthy (fallback props) then fallback props
         else ErrorFallbackElement (error st) HandleRetry)
      \<and> render (props\<lparr>children := c\<rparr>) st = render props st)
   \<and> (\<not> hasError st \<longrightarrow> render props st = children props)
   \<and> getDerivedStateFromError e = \<lparr>hasError = True, error = Some e\<rparr>
   \<and> \<not> hasError (handleRetry st)
   \<and> error (handleRetry st) = None
   \<and> render props (handleRetry st) = children props
   \<and> render props initial_state = children props"
  by (simp add: render_def getDerivedStateFromError_def handleRetry_def initial_state_def)

theorem render_error_boundary_witness:
  "hasError (getDerivedStateFromError \<lparr>message = js_str ''Test error message''\<rparr>)
   \<and> render \<lparr>children = RElement 1, fallback = RElement 2\<rparr>
        (getDerivedStateFromError \<lparr>message = js_str ''Test error message''\<rparr>) = RElement 2
   \<and> render \<lparr>children = RElement 1, fallback = RUndefined\<rparr>
        (getDerivedStateFromError \<lparr>message = js_str ''Test error message''\<rparr>)
      = ErrorFallbackElement (Some \<lparr>message = js_str ''Test error message''\<rparr>) HandleRetry
   \<and> \<not> hasError initial_state
   \<and> render \<lparr>children = RElement 1, fallback = RElement 2\<rparr> initial_state = RElement 1"
  using
    render_error_boundary [of "getDerivedStateFromError \<lparr>message = js_str ''Test error message''\<rparr>"
      "\<lparr>children = RElement 1, fallback = RElement 2\<rparr>" RNull
      "\<lparr>message = js_str ''Test error message''\<rparr>"]
    render_error_boundary [of "getDerivedStateFromError \<lparr>message = js_str ''Test error message''\<rparr>"
      "\<lparr>children = RElement 1, fallback = RUndefined\<rparr>" RNull
      "\<lparr>message = js_str ''Test error message''\<rparr>"]
    render_error_boundary [of initial_state
      "\<lparr>children = RElement 1, fallback = RElement 2\<rparr>" RNull
      "\<lparr>message = js_str ''Test error message''\<rparr>"]
  by (simp add: initial_state_def)

text \<open>
  The claim as first stated says that the custom fallback is returned whenever
  \<open>props.fallback\<close> is provided. The number 0 is a \<open>ReactNode\<close> that can be passed as
  \<open>fallback\<close>; it is falsy, so the guard \<open>if (this.props.fallback)\<close> fails and the
  default \<open>ErrorFallback\<close> is returned instead.
\<close>

theorem render_zero_fallback_counterexample:
  "hasError (getDerivedStateFromError \<lparr>message = js_str ''Test error message''\<rparr>)
   \<and> fallback \<lparr>children = RElement 1, fallback = RNumber (Finite 0)\<rparr> \<noteq> RUndefined
   \<and> render \<lparr>children = RElement 1, fallback = RNumber (Finite 0)\<rparr>
        (getDerivedStateFromError \<lparr>message = js_str ''Test error message''\<rparr>)
      \<noteq> fallback \<lparr>children = RElement 1, fallback = RNumber (Finite 0)\<rparr>
   \<and> render \<lparr>children = RElement 1, fallback = RNumber (Finite 0)\<rparr>
        (getDerivedStateFromError \<lparr>message = js_str ''Test error message''\<rparr>)
      = ErrorFallbackElement (Some \<lparr>message = js_str ''Test error message''\<rparr>) HandleRetry"
  by (simp add: render_def getDerivedStateFromError_def)

section \<open>Properties of the history store\<close>

lemma history_append_ids:
  "set (map request_id (snd (history_append r store))) =
     insert (request_id r) (set (map request_id store))"
  by (auto simp add: history_append_def)

lemma history_append_distinct:
  "distinct (map request_id store) \<Longrightarrow>
     distinct (map request_id (snd (history_append r store)))"
  by (simp add: history_append_def)

lemma foldl_append_distinct:
  "distinct (map request_id store) \<Longrightarrow>
     distinct (map request_id (foldl (\<lambda>s r. snd (history_append r s)) store rs))"
  by (induction rs arbitrary: store) (simp_all add: history_append_distinct)

lemma foldl_append_ids:
  "set (map request_id (foldl (\<lambda>s r. snd (history_append r s)) store rs)) =
     set (map request_id store) \<union> set (map request_id rs)"
proof (induction rs arbitrary: store)
  case Nil
  then show ?case by simp
next
  case (Cons r rs)
  show ?case
    unfolding foldl_Cons Cons.IH history_append_ids by auto
qed

lemma distinct_ids_count:
  "distinct (map request_id store) \<Longrightarrow>
     length (records_of rid store) = (if rid \<in> set (map request_id store) then 1 else 0)"
proof (induction store)
  case Nil
  then show ?case by (simp add: records_of_def)
next
  case (Cons x xs)
  then show ?case by (auto simp add: records_of_def)
qed

text \<open>
  C4. \<open>append\<close> is idempotent on the request id. After any sequence of \<open>append\<close>
  calls on the empty store, no two stored records share a request id, and a request id
  has exactly one stored record if a call carried it and none otherwise. A second
  \<open>append\<close> with the request id of an earlier one answers \<open>Conflict\<close> and leaves the
  store as it was, so two calls with one request id leave exactly one record.
\<close>

theorem history_append_idempotent:
  "distinct (map request_id (submit_all rs))
   \<and> length (records_of rid (submit_all rs)) =
       (if rid \<in> set (map request_id rs) then 1 else 0)
   \<and> (request_id r' = request_id r \<longrightarrow>
        history_append r' (snd (history_append r store)) =
          (Conflict, snd (history_append r store))
        \<and> length (records_of (request_id r) (submit_all (rs @ [r, r']))) = 1)"
proof -
  have d: "distinct (map request_id (submit_all xs))" for xs
    unfolding submit_all_def by (rule foldl_append_distinct) simp
  have ids: "set (map request_id (submit_all xs)) = set (map request_id xs)" for xs
    unfolding submit_all_def foldl_append_ids by simp
  have n: "length (records_of i (submit_all xs)) =
       (if i \<in> set (map request_id xs) then 1 else 0)" for i xs
    using distinct_ids_count [OF d, of i xs] by (simp only: ids)
  have c: "history_append r' (snd (history_append r store)) =
          (Conflict, snd (history_append r store))" if "request_id r' = request_id r"
    using that by (simp add: history_append_def)
  have "length (records_of (request_id r) (submit_all (rs @ [r, r']))) = 1"
    by (simp add: n)
  with d n c show ?thesis by blast
qed

theorem history_append_idempotent_witness:
  "history_append
      \<lparr>request_id = ''req-1'', owner_id = ''u1'', status = Failed,
        asset_refs = [], record_error = Some ''ModelTimeout'', timestamps = [2]\<rparr>
      (snd (history_append
        \<lparr>request_id = ''req-1'', owner_id = ''u1'', status = Completed,
        asset_refs = [''a.png''], record_error = None, timestamps = [1]\<rparr> []))
    = (Conflict,
       [\<lparr>request_id = ''req-1'', owner_id = ''u1'', status = Completed,
        asset_refs = [''a.png''], record_error = None, timestamps = [1]\<rparr>])
   \<and> length (records_of ''req-1'' (submit_all
       [\<lparr>request_id = ''req-1'', owner_id = ''u1'', status = Completed,
        asset_refs = [''a.png''], record_error = None, timestamps = [1]\<rparr>,
        \<lparr>request_id = ''req-1'', owner_id = ''u1'', status = Failed,
        asset_refs = [], record_error = Some ''ModelTimeout'', timestamps = [2]\<rparr>])) = 1"
  using history_append_idempotent [of "[]" "''req-1''"
      "\<lparr>request_id = ''req-1'', owner_id = ''u1'', status = Failed,
        asset_refs = [], record_error = Some ''ModelTimeout'', timestamps = [2]\<rparr>"
      "\<lparr>request_id = ''req-1'', owner_id = ''u1'', status = Completed,
        asset_refs = [''a.png''], record_error = None, timestamps = [1]\<rparr>" "[]"]
  by (simp add: history_append_def)

end
